theory Spec2Isabelle
  imports Complex_Main
begin


section \<open>Pointy: the orchestration engine of \<^verbatim>\<open>src/pointy.js\<close>\<close>

text \<open>
  A shallow embedding of the class \<^verbatim>\<open>Pointy\<close>: its fields are a record, every method is a
  function from the instance to the updated instance, the host's timer table
  (\<^verbatim>\<open>setTimeout\<close>, \<^verbatim>\<open>setInterval\<close>, \<^verbatim>\<open>requestAnimationFrame\<close>) is an explicit list of pending
  timers whose callbacks are first-order closures, and every \<^verbatim>\<open>_emit\<close> is recorded in a log.

  What is outside the model: CSS text, style properties and pixel geometry (they are
  written, never read back by the control flow, except the bubble's opacity and the bubble
  text, which are kept); numbers that are durations, coordinates and clock readings are
  reals, indices are integers; event handlers and the two user callbacks are observers that
  return or throw but do not call back into the instance while they run.
\<close>

subsection \<open>Values\<close>

type_synonym element = nat

text \<open>JavaScript values that occur as message content and in event payloads.\<close>

datatype val =
    Undefined
  | Null
  | Bool bool
  | Num real
  | Str string
  | Elem element
  | Node nat
  | This
  | Opaque
  | Arr "val list"
  | Obj "(string \<times> val) list"

text \<open>\<^verbatim>\<open>string | HTMLElement\<close>, or a missing target.\<close>

datatype target = Selector string | ElementRef element | NoTarget

datatype position = PosStr string | PosElem element

record step =
  target :: target
  content :: val
  direction :: "string option"
  duration :: "real option"

type_synonym event = "string \<times> (string \<times> val) list"

text \<open>An event handler: its identity (handlers are compared by reference) and the event
  types on which it throws.\<close>

datatype callback = Callback (cb_id: nat) (cb_throws: "string \<Rightarrow> bool")

datatype js_error = TypeError | HandlerError nat

datatype log_entry = ConsoleError string js_error | ConsoleWarn string | Uncaught js_error

text \<open>The closures handed to the host's timers, with the variables they capture.\<close>

datatype timer_cb =
    TextSwap val real
  | DomOnly
  | IntroFadeEnd bool
  | IntroArrive
  | RestartDelay
  | ResetSettle
  | MessageTick
  | ReanimateFadeIn
  | ShowBubble
  | StepSettle int step "element option"
  | AutoplayAdvance real
  | AutoplayAfterMessages
  | AutoHide real string
  | PointToSettle val string "element option"
  | TrackFrame

datatype timer_kind = Timeout | Interval | Frame

datatype timer = Timer (tid: nat) (kind: timer_kind) (delay: real) (cb: timer_cb)

text \<open>What the engine reads from its host: the two clocks, the layout and the selector
  resolver. \<open>pageTop el\<close> is \<^verbatim>\<open>el.getBoundingClientRect().top + window.scrollY\<close>.\<close>

record env =
  dateNow :: real
  perfNow :: real
  pageTop :: "element \<Rightarrow> real"
  querySelector :: "string \<Rightarrow> element option"

subsection \<open>The instance\<close>

record pointy =
  steps :: "step list"
  offsetX :: real
  offsetY :: real
  tracking :: bool
  trackingFps :: real
  animationDuration :: real
  introFadeDuration :: real
  bubbleFadeDuration :: real
  messageTransitionDuration :: real
  easing :: string
  resetOnComplete :: bool
  floatingAnimation :: bool
  initialPosition :: position
  initialPositionOffset :: real
  resetPositionOnHide :: bool
  autoplay :: "real option"
  autoplayEnabled :: bool
  autoplayWaitForMessages :: bool
  hideOnComplete :: bool
  hideOnCompleteDelay :: "real option"
  autoplayTimeoutId :: "nat option"
  autoplayPaused :: bool
  messagesCompletedForStep :: bool
  hideOnCompleteTimeoutId :: "nat option"
  onStepChange :: bool
  onComplete :: bool
  eventListeners :: "string \<Rightarrow> callback list option"
  targetElement :: "element option"
  currentStepIndex :: int
  currentMessageIndex :: int
  currentMessages :: "val list"
  messageInterval :: "real option"
  messageIntervalId :: "nat option"
  isVisible :: bool
  isPointingUp :: bool
  lastTargetY :: "real option"
  targetYHistory :: "(real \<times> real) list"
  lastDirectionChangeTime :: real
  manualDirection :: "string option"
  moveTimeout :: "nat option"
  hasShownBefore :: bool
  messageCyclePausedByHide :: bool
  messageCyclePaused :: bool
  wasAutoplayActiveBeforeHide :: bool
  rafId :: "nat option"
  lastTrackTime :: real
  pointerSvg :: val
  attached :: bool
  windowListening :: bool
  moving :: bool
  bubbleOpacity :: string
  bubbleText :: val
  world :: env
  timers :: "timer list"
  nextId :: nat
  emitted :: "event list"
  delivered :: "(nat \<times> event) list"
  userCalls :: "(string \<times> val list) list"
  console :: "log_entry list"

text \<open>A call either returns or throws; the fields written before the throw stay written.\<close>

type_synonym outcome = "js_error option \<times> pointy"

definition and_then :: "outcome \<Rightarrow> (pointy \<Rightarrow> outcome) \<Rightarrow> outcome" where
  "and_then r f = (case fst r of None \<Rightarrow> f (snd r) | Some e \<Rightarrow> r)"

definition returns :: "pointy \<Rightarrow> outcome" where
  "returns s = (None, s)"

subsection \<open>Small JavaScript idioms\<close>

text \<open>Truthiness of a \<^verbatim>\<open>number | null\<close>.\<close>

fun truthy :: "real option \<Rightarrow> bool" where
  "truthy None = False"
| "truthy (Some d) = (d \<noteq> 0)"

text \<open>\<^verbatim>\<open>typeof target === 'string' ? document.querySelector(target) : target\<close>\<close>

fun getTargetElement :: "env \<Rightarrow> target \<Rightarrow> element option" where
  "getTargetElement w (Selector q) = querySelector w q"
| "getTargetElement w (ElementRef el) = Some el"
| "getTargetElement w NoTarget = None"

fun elem_val :: "element option \<Rightarrow> val" where
  "elem_val None = Null"
| "elem_val (Some el) = Elem el"

fun target_val :: "target \<Rightarrow> val" where
  "target_val (Selector q) = Str q"
| "target_val (ElementRef el) = Elem el"
| "target_val NoTarget = Null"

fun num_val :: "real option \<Rightarrow> val" where
  "num_val None = Null"
| "num_val (Some d) = Num d"

fun opt_num_val :: "real option \<Rightarrow> val" where
  "opt_num_val None = Undefined"
| "opt_num_val (Some d) = Num d"

fun opt_str_val :: "string option \<Rightarrow> val" where
  "opt_str_val None = Undefined"
| "opt_str_val (Some d) = Str d"

fun position_val :: "position \<Rightarrow> val" where
  "position_val (PosStr p) = Str p"
| "position_val (PosElem el) = Elem el"

definition step_val :: "step \<Rightarrow> val" where
  "step_val st = Obj [(''target'', target_val (target st)), (''content'', content st),
     (''direction'', opt_str_val (direction st)), (''duration'', opt_num_val (duration st))]"

text \<open>\<^verbatim>\<open>Array.isArray(content) ? content : [content]\<close>\<close>

fun as_messages :: "val \<Rightarrow> val list" where
  "as_messages (Arr ms) = ms"
| "as_messages v = [v]"

text \<open>Reading an array: out of range gives \<^verbatim>\<open>undefined\<close>.\<close>

definition item_at :: "'a list \<Rightarrow> int \<Rightarrow> 'a option" where
  "item_at xs i = (if 0 \<le> i \<and> i < int (length xs) then Some (xs ! nat i) else None)"

definition msg_at :: "val list \<Rightarrow> int \<Rightarrow> val" where
  "msg_at ms i = (case item_at ms i of Some m \<Rightarrow> m | None \<Rightarrow> Undefined)"

text \<open>Writing an array element: past the end the array grows, the holes read
  \<^verbatim>\<open>undefined\<close>.\<close>

definition js_set :: "val list \<Rightarrow> int \<Rightarrow> val \<Rightarrow> val list" where
  "js_set xs i v =
     (if i < 0 then xs
      else if nat i < length xs then xs[nat i := v]
      else xs @ replicate (nat i - length xs) Undefined @ [v])"

fun is_empty_msg :: "val \<Rightarrow> bool" where
  "is_empty_msg (Str m) = (m = [])"
| "is_empty_msg Null = True"
| "is_empty_msg Undefined = True"
| "is_empty_msg v = False"

text \<open>\<^verbatim>\<open>{ ...data, type: event, pointy: this }\<close>: a key that is already there keeps its
  place and takes the new value.\<close>

fun set_field :: "string \<Rightarrow> val \<Rightarrow> (string \<times> val) list \<Rightarrow> (string \<times> val) list" where
  "set_field k v [] = [(k, v)]"
| "set_field k v (p # ps) = (if fst p = k then (k, v) # ps else p # set_field k v ps)"

subsection \<open>Event bus\<close>

definition EVENT_GROUPS :: "(string \<times> string list) list" where
  "EVENT_GROUPS =
    [(''lifecycle'', [''beforeShow'', ''show'', ''beforeHide'', ''hide'', ''destroy'',
        ''beforeRestart'', ''restart'', ''beforeReset'', ''reset'']),
     (''navigation'', [''beforeStepChange'', ''stepChange'', ''next'', ''prev'', ''complete'']),
     (''animation'', [''animationStart'', ''animationEnd'', ''move'', ''moveComplete'',
        ''introAnimationStart'', ''introAnimationEnd'']),
     (''content'', [''contentSet'', ''messagesSet'', ''messageChange'']),
     (''messageCycle'', [''messageCycleStart'', ''messageCycleStop'', ''messageCyclePause'',
        ''messageCycleResume'', ''messageCycleComplete'']),
     (''pointing'', [''beforePointTo'', ''pointTo'', ''pointToComplete'']),
     (''tracking'', [''track'', ''targetChange'', ''trackingChange'', ''trackingFpsChange'']),
     (''autoplay'', [''autoplayStart'', ''autoplayStop'', ''autoplayPause'', ''autoplayResume'',
        ''autoplayNext'', ''autoplayComplete'', ''autoHide'', ''autoplayChange'',
        ''autoplayWaitForMessagesChange''])]"

definition endsWith :: "string \<Rightarrow> string \<Rightarrow> bool" where
  "endsWith str suffix =
     (length suffix \<le> length str \<and> drop (length str - length suffix) str = suffix)"

definition startsWith :: "string \<Rightarrow> string \<Rightarrow> bool" where
  "startsWith str pre = (take (length pre) str = pre)"

text \<open>The loop of \<^verbatim>\<open>getEventGroup\<close> over \<^verbatim>\<open>Object.entries(Pointy.EVENT_GROUPS)\<close>.\<close>

fun find_group :: "(string \<times> string list) list \<Rightarrow> string \<Rightarrow> string option" where
  "find_group [] ev = None"
| "find_group (ge # rest) ev = (if ev \<in> set (snd ge) then Some (fst ge) else find_group rest ev)"

definition getEventGroup :: "string \<Rightarrow> string option" where
  "getEventGroup ev =
     (case find_group EVENT_GROUPS ev of
        Some g \<Rightarrow> Some g
      | None \<Rightarrow> if endsWith ev ''Change'' then Some ''config'' else None)"

definition getEventsInGroup :: "string \<Rightarrow> string list" where
  "getEventsInGroup g = (case map_of EVENT_GROUPS g of Some evs \<Rightarrow> evs | None \<Rightarrow> [])"

text \<open>Calling a handler: it returns or it throws.\<close>

definition invoke :: "callback \<Rightarrow> event \<Rightarrow> js_error + unit" where
  "invoke h e = (if cb_throws h (fst e) then Inl (HandlerError (cb_id h)) else Inr ())"

text \<open>One pass of \<^verbatim>\<open>forEach(callback => { try { callback(eventData) } catch (e) {
  console.error(...) } })\<close>.\<close>

fun call_each :: "string \<Rightarrow> callback list \<Rightarrow> event \<Rightarrow> pointy \<Rightarrow> pointy" where
  "call_each label [] e s = s"
| "call_each label (h # hs) e s =
     (let s1 = s\<lparr>delivered := delivered s @ [(cb_id h, e)]\<rparr>;
          s2 = (case invoke h e of
                  Inl err \<Rightarrow> s1\<lparr>console := console s1 @ [ConsoleError label err]\<rparr>
                | Inr u \<Rightarrow> s1)
      in call_each label hs e s2)"

definition call_listeners :: "string \<Rightarrow> string \<Rightarrow> event \<Rightarrow> pointy \<Rightarrow> pointy" where
  "call_listeners label key e s =
     (case eventListeners s key of Some hs \<Rightarrow> call_each label hs e s | None \<Rightarrow> s)"

definition emit :: "string \<Rightarrow> (string \<times> val) list \<Rightarrow> pointy \<Rightarrow> pointy" where
  "emit ev data s =
     (let eventData = (ev, set_field ''pointy'' This (set_field ''type'' (Str ev) data));
          s0 = s\<lparr>emitted := emitted s @ [eventData]\<rparr>;
          s1 = call_listeners (''Pointy: Error in '' @ ev @ '' event handler:'') ev eventData s0;
          s2 = (case getEventGroup ev of
                  Some g \<Rightarrow> call_listeners
                    (''Pointy: Error in '' @ g @ '' group handler for '' @ ev @ '':'') g eventData s1
                | None \<Rightarrow> s1);
          s3 = call_listeners (''Pointy: Error in wildcard handler for '' @ ev @ '':'') ''*''
                 eventData s2
      in call_listeners (''Pointy: Error in wildcard handler for '' @ ev @ '':'') ''all''
           eventData s3)"

definition on :: "string \<Rightarrow> callback \<Rightarrow> pointy \<Rightarrow> pointy" where
  "on ev h s =
     s\<lparr>eventListeners := (eventListeners s)
          (ev \<mapsto> (case eventListeners s ev of None \<Rightarrow> [] | Some hs \<Rightarrow> hs) @ [h])\<rparr>"

definition off :: "string \<Rightarrow> callback option \<Rightarrow> pointy \<Rightarrow> pointy" where
  "off ev ho s =
     (case eventListeners s ev of
        None \<Rightarrow> s
      | Some hs \<Rightarrow>
          (case ho of
             Some h \<Rightarrow> s\<lparr>eventListeners := (eventListeners s)
                          (ev \<mapsto> filter (\<lambda>c. cb_id c \<noteq> cb_id h) hs)\<rparr>
           | None \<Rightarrow> s\<lparr>eventListeners := (eventListeners s)(ev := None)\<rparr>))"

subsection \<open>The host's timers\<close>

definition schedule :: "timer_kind \<Rightarrow> timer_cb \<Rightarrow> real \<Rightarrow> pointy \<Rightarrow> pointy" where
  "schedule k c d s = s\<lparr>timers := timers s @ [Timer (nextId s) k d c], nextId := Suc (nextId s)\<rparr>"

text \<open>\<^verbatim>\<open>setTimeout\<close>, \<^verbatim>\<open>setInterval\<close> and \<^verbatim>\<open>requestAnimationFrame\<close> return \<open>nextId\<close> of the
  state they are called in.\<close>

definition setTimeout :: "timer_cb \<Rightarrow> real \<Rightarrow> pointy \<Rightarrow> pointy" where
  "setTimeout c d s = schedule Timeout c d s"

definition setInterval :: "timer_cb \<Rightarrow> real \<Rightarrow> pointy \<Rightarrow> pointy" where
  "setInterval c d s = schedule Interval c d s"

definition requestAnimationFrame :: "timer_cb \<Rightarrow> pointy \<Rightarrow> pointy" where
  "requestAnimationFrame c s = schedule Frame c 0 s"

text \<open>\<^verbatim>\<open>clearTimeout\<close> and \<^verbatim>\<open>clearInterval\<close> share one table of ids.\<close>

definition clearTimeout :: "nat \<Rightarrow> pointy \<Rightarrow> pointy" where
  "clearTimeout i s = s\<lparr>timers := filter (\<lambda>t. \<not> (tid t = i \<and> kind t \<noteq> Frame)) (timers s)\<rparr>"

definition cancelAnimationFrame :: "nat \<Rightarrow> pointy \<Rightarrow> pointy" where
  "cancelAnimationFrame i s = s\<lparr>timers := filter (\<lambda>t. \<not> (tid t = i \<and> kind t = Frame)) (timers s)\<rparr>"

subsection \<open>Position and direction\<close>

text \<open>
  \<^verbatim>\<open>updatePosition\<close>. The \<^verbatim>\<open>left\<close>/\<^verbatim>\<open>top\<close> pixels and the transforms it writes at the end are
  presentation and are left out; the direction state it maintains is here.
\<close>

definition updatePosition :: "pointy \<Rightarrow> pointy" where
  "updatePosition s =
     (case targetElement s of
        None \<Rightarrow> s
      | Some el \<Rightarrow>
          (case manualDirection s of
             Some d \<Rightarrow> s\<lparr>isPointingUp := (d = ''up'')\<rparr>
           | None \<Rightarrow>
               (let currentTargetY = pageTop (world s) el;
                    now = dateNow (world s);
                    hist = filter (\<lambda>h. now - snd h < 200) (targetYHistory s @ [(currentTargetY, now)]);
                    s1 = s\<lparr>targetYHistory := hist\<rparr>;
                    s2 = (if 2 \<le> length hist then
                            (let oldest = hd hist;
                                 newest = last hist;
                                 deltaY = fst newest - fst oldest
                             in if 30 < \<bar>deltaY\<bar> \<and> 300 < now - lastDirectionChangeTime s1 then
                                  (let newDirection = (deltaY < 0)
                                   in if newDirection \<noteq> isPointingUp s1
                                      then s1\<lparr>isPointingUp := newDirection,
                                              lastDirectionChangeTime := now\<rparr>
                                      else s1)
                                else s1)
                          else s1)
                in s2\<lparr>lastTargetY := Some currentTargetY\<rparr>)))"

definition trackPosition :: "pointy \<Rightarrow> pointy" where
  "trackPosition s =
     (if \<not> isVisible s \<or> targetElement s = None then s\<lparr>rafId := None\<rparr>
      else
        (let s1 = (if 0 < trackingFps s then
                     (let now = perfNow (world s);
                          interval = 1000 / trackingFps s
                      in if interval \<le> now - lastTrackTime s then
                           emit ''track'' [(''target'', elem_val (targetElement s)),
                                           (''timestamp'', Num now)]
                             (updatePosition (s\<lparr>lastTrackTime := now\<rparr>))
                         else s)
                   else
                     (let s' = updatePosition s
                      in emit ''track'' [(''target'', elem_val (targetElement s')),
                                         (''timestamp'', Num (perfNow (world s')))] s'))
         in (requestAnimationFrame TrackFrame s1)\<lparr>rafId := Some (nextId s1)\<rparr>))"

definition startTracking :: "pointy \<Rightarrow> pointy" where
  "startTracking s =
     (if \<not> tracking s then s
      else if rafId s = None then trackPosition s
      else s)"

definition stopTracking :: "pointy \<Rightarrow> pointy" where
  "stopTracking s =
     (case rafId s of
        Some i \<Rightarrow> (cancelAnimationFrame i s)\<lparr>rafId := None\<rparr>
      | None \<Rightarrow> s)"

text \<open>The handler the constructor registers for the window's resize and scroll events.\<close>

definition onWindowEvent :: "pointy \<Rightarrow> pointy" where
  "onWindowEvent s = (if windowListening s then updatePosition s else s)"

subsection \<open>Bubble content\<close>

text \<open>What \<^verbatim>\<open>bubbleText.innerHTML\<close> reads after \<^verbatim>\<open>renderContent\<close> wrote a value, where the
  model knows it.\<close>

fun innerHTML :: "val \<Rightarrow> string option" where
  "innerHTML (Str m) = Some m"
| "innerHTML Null = Some []"
| "innerHTML Undefined = Some ''undefined''"
| "innerHTML v = None"

definition renderContent :: "val \<Rightarrow> pointy \<Rightarrow> pointy" where
  "renderContent c s = s\<lparr>bubbleText := c\<rparr>"

text \<open>\<^verbatim>\<open>Pointy.animateText(this.bubbleText, newContent, duration, this.bubble, () =>
  this.updatePosition())\<close>: the content is swapped after \<^verbatim>\<open>duration * 0.4\<close>.\<close>

definition animateText :: "val \<Rightarrow> real \<Rightarrow> pointy \<Rightarrow> pointy" where
  "animateText newContent d s = setTimeout (TextSwap newContent (d * 0.6)) (d * 0.4) s"

fun is_empty_content :: "val \<Rightarrow> bool" where
  "is_empty_content (Arr ms) = (ms = [] \<or> list_all is_empty_msg ms)"
| "is_empty_content v = is_empty_msg v"

definition updateContent :: "val \<Rightarrow> bool \<Rightarrow> pointy \<Rightarrow> pointy" where
  "updateContent newContent animate s =
     (if is_empty_content newContent then s\<lparr>bubbleOpacity := ''0''\<rparr>
      else
        (let wasHidden = (bubbleOpacity s = ''0'');
             s1 = (if wasHidden \<and> isVisible s
                   then requestAnimationFrame DomOnly (updatePosition (s\<lparr>bubbleOpacity := ''1''\<rparr>))
                   else s)
         in if (case newContent of Str m \<Rightarrow> innerHTML (bubbleText s1) = Some m | _ \<Rightarrow> False)
            then s1
            else if animate then animateText newContent (messageTransitionDuration s1) s1
            else updatePosition (renderContent newContent s1)))"

subsection \<open>Message cursor and message cycle\<close>

definition stopMessageCycle' :: "pointy \<Rightarrow> pointy" where
  "stopMessageCycle' s =
     (case messageIntervalId s of
        Some i \<Rightarrow> emit ''messageCycleStop'' [(''currentIndex'', Num (of_int (currentMessageIndex s)))]
                    ((clearTimeout i s)\<lparr>messageIntervalId := None\<rparr>)
      | None \<Rightarrow> s)"

definition startMessageCycle' :: "pointy \<Rightarrow> pointy" where
  "startMessageCycle' s =
     (let s1 = s\<lparr>messagesCompletedForStep := False\<rparr>;
          s2 = (setInterval MessageTick (case messageInterval s1 of Some d \<Rightarrow> d | None \<Rightarrow> 0) s1)
                 \<lparr>messageIntervalId := Some (nextId s1)\<rparr>
      in emit ''messageCycleStart''
           [(''interval'', num_val (messageInterval s2)),
            (''totalMessages'', Num (of_nat (length (currentMessages s2))))] s2)"

definition applyMessages :: "val \<Rightarrow> bool \<Rightarrow> pointy \<Rightarrow> pointy" where
  "applyMessages c fromStepChange s =
     (let wasRunning = (messageIntervalId s \<noteq> None);
          s1 = stopMessageCycle' s;
          s2 = s1\<lparr>currentMessages := as_messages c, currentMessageIndex := 0\<rparr>;
          s3 = updateContent (msg_at (currentMessages s2) 0) True s2;
          s4 = (if fromStepChange \<and> truthy (messageInterval s3) \<and> 1 < length (currentMessages s3)
                then startMessageCycle' s3
                else if wasRunning \<and> 1 < length (currentMessages s3)
                then s3\<lparr>messageCyclePaused := True\<rparr>
                else s3)
      in emit ''messagesSet''
           [(''messages'', Arr (currentMessages s4)),
            (''total'', Num (of_nat (length (currentMessages s4)))),
            (''cyclePaused'', Bool (messageCyclePaused s4))] s4)"

definition pauseMessageCycle :: "pointy \<Rightarrow> pointy" where
  "pauseMessageCycle s =
     (case messageIntervalId s of
        Some i \<Rightarrow> emit ''messageCyclePause'' [(''currentIndex'', Num (of_int (currentMessageIndex s)))]
                    ((clearTimeout i s)\<lparr>messageIntervalId := None, messageCyclePaused := True\<rparr>)
      | None \<Rightarrow> s)"

definition resumeMessageCycle :: "pointy \<Rightarrow> bool \<times> pointy" where
  "resumeMessageCycle s =
     (if messageCyclePaused s \<and> truthy (messageInterval s) \<and> 1 < length (currentMessages s)
      then (let s1 = startMessageCycle' (s\<lparr>messageCyclePaused := False\<rparr>)
            in (True, emit ''messageCycleResume''
                        [(''currentIndex'', Num (of_int (currentMessageIndex s1)))] s1))
      else (False, s))"

definition startMessageCycle :: "real option \<Rightarrow> pointy \<Rightarrow> bool \<times> pointy" where
  "startMessageCycle interval s =
     (if messageIntervalId s \<noteq> None then (False, s)
      else if length (currentMessages s) \<le> 1 then (False, s)
      else
        (let s1 = (case interval of Some d \<Rightarrow> s\<lparr>messageInterval := Some d\<rparr> | None \<Rightarrow> s)
         in if \<not> truthy (messageInterval s1) then (False, s1)
            else (True, startMessageCycle' (s1\<lparr>messageCyclePaused := False\<rparr>))))"

definition stopMessageCycle :: "pointy \<Rightarrow> bool \<times> pointy" where
  "stopMessageCycle s =
     (if messageIntervalId s \<noteq> None
      then (True, (stopMessageCycle' s)\<lparr>messageCyclePaused := False\<rparr>)
      else (False, s))"

text \<open>The remainder operator \<^verbatim>\<open>%\<close>: the result has the sign of the dividend.\<close>

definition js_rem :: "int \<Rightarrow> int \<Rightarrow> int" where
  "js_rem a b = (if 0 \<le> a then a mod \<bar>b\<bar> else - ((- a) mod \<bar>b\<bar>))"

definition nextMessage :: "bool \<Rightarrow> pointy \<Rightarrow> bool \<times> pointy" where
  "nextMessage isAuto s =
     (if length (currentMessages s) \<le> 1 then (False, s)
      else
        (let previousIndex = currentMessageIndex s;
             s1 = s\<lparr>currentMessageIndex :=
                       js_rem (currentMessageIndex s + 1) (int (length (currentMessages s)))\<rparr>;
             s2 = updateContent (msg_at (currentMessages s1) (currentMessageIndex s1)) True s1
         in (True, emit ''messageChange''
                     [(''fromIndex'', Num (of_int previousIndex)),
                      (''toIndex'', Num (of_int (currentMessageIndex s2))),
                      (''message'', msg_at (currentMessages s2) (currentMessageIndex s2)),
                      (''total'', Num (of_nat (length (currentMessages s2)))),
                      (''isAuto'', Bool isAuto)] s2)))"

definition prevMessage :: "pointy \<Rightarrow> bool \<times> pointy" where
  "prevMessage s =
     (if length (currentMessages s) \<le> 1 then (False, s)
      else
        (let previousIndex = currentMessageIndex s;
             s1 = s\<lparr>currentMessageIndex :=
                       js_rem (currentMessageIndex s - 1 + int (length (currentMessages s)))
                         (int (length (currentMessages s)))\<rparr>;
             s2 = updateContent (msg_at (currentMessages s1) (currentMessageIndex s1)) True s1
         in (True, emit ''messageChange''
                     [(''fromIndex'', Num (of_int previousIndex)),
                      (''toIndex'', Num (of_int (currentMessageIndex s2))),
                      (''message'', msg_at (currentMessages s2) (currentMessageIndex s2)),
                      (''total'', Num (of_nat (length (currentMessages s2))))] s2)))"


definition setMessage :: "val \<Rightarrow> bool \<Rightarrow> pointy \<Rightarrow> pointy" where
  "setMessage message animate s =
     (let oldMessage = msg_at (currentMessages s) (currentMessageIndex s);
          s1 = s\<lparr>currentMessages := js_set (currentMessages s) (currentMessageIndex s) message\<rparr>;
          s2 = updateContent message animate s1;
          s3 = (if \<not> animate then updatePosition s2 else s2)
      in emit ''messageUpdate''
           [(''index'', Num (of_int (currentMessageIndex s3))),
            (''message'', message),
            (''oldMessage'', oldMessage),
            (''total'', Num (of_nat (length (currentMessages s3)))),
            (''animated'', Bool animate)] s3)"

definition setMessages :: "val \<Rightarrow> bool \<Rightarrow> pointy \<Rightarrow> pointy" where
  "setMessages c animate s =
     (let wasRunning = (messageIntervalId s \<noteq> None);
          s1 = (if animate then applyMessages c False s
                else
                  (let t1 = stopMessageCycle' s;
                       t2 = t1\<lparr>currentMessages := as_messages c, currentMessageIndex := 0\<rparr>;
                       t3 = updatePosition (renderContent (msg_at (currentMessages t2) 0) t2)
                   in if wasRunning \<and> 1 < length (currentMessages t3)
                      then t3\<lparr>messageCyclePaused := True\<rparr>
                      else t3))
      in emit ''messagesSet''
           [(''messages'', Arr (currentMessages s1)),
            (''total'', Num (of_nat (length (currentMessages s1)))),
            (''animated'', Bool animate),
            (''cyclePaused'', Bool (messageCyclePaused s1))] s1)"

subsection \<open>Autoplay\<close>

definition stopAutoplay' :: "pointy \<Rightarrow> pointy" where
  "stopAutoplay' s =
     (case autoplayTimeoutId s of
        Some i \<Rightarrow> (clearTimeout i s)\<lparr>autoplayTimeoutId := None\<rparr>
      | None \<Rightarrow> s)"

text \<open>\<^verbatim>\<open>_scheduleAutoplay\<close>. \<^verbatim>\<open>this.steps[this.currentStepIndex]\<close> is \<^verbatim>\<open>undefined\<close> when there
  is no such step, and reading its \<^verbatim>\<open>duration\<close> then throws.\<close>

definition scheduleAutoplay :: "pointy \<Rightarrow> outcome" where
  "scheduleAutoplay s =
     (if \<not> truthy (autoplay s) \<or> \<not> autoplayEnabled s \<or> autoplayPaused s \<or> \<not> isVisible s
      then returns s
      else
        (let st = item_at (steps s) (currentStepIndex s);
             hasMultipleMessages = (1 < length (currentMessages s) \<and> truthy (messageInterval s))
         in if autoplayWaitForMessages s \<and> hasMultipleMessages then returns s
            else
              (case st of
                 None \<Rightarrow> (Some TypeError, s)
               | Some stp \<Rightarrow>
                   (let d = (case duration stp of Some sd \<Rightarrow> Some sd | None \<Rightarrow> autoplay s)
                    in if truthy d \<and> 0 < the d
                       then returns ((setTimeout (AutoplayAdvance (the d)) (the d) s)
                                       \<lparr>autoplayTimeoutId := Some (nextId s)\<rparr>)
                       else returns s))))"

definition scheduleAutoplayAfterMessages :: "pointy \<Rightarrow> pointy" where
  "scheduleAutoplayAfterMessages s =
     (if \<not> truthy (autoplay s) \<or> \<not> autoplayEnabled s \<or> autoplayPaused s \<or> \<not> isVisible s
      then s
      else (setTimeout AutoplayAfterMessages 300 s)\<lparr>autoplayTimeoutId := Some (nextId s)\<rparr>)"

definition startAutoplay :: "pointy \<Rightarrow> outcome" where
  "startAutoplay s =
     (if \<not> truthy (autoplay s) then returns s
      else scheduleAutoplay
             (emit ''autoplayStart'' [] (s\<lparr>autoplayEnabled := True, autoplayPaused := False\<rparr>)))"

definition stopAutoplay :: "pointy \<Rightarrow> pointy" where
  "stopAutoplay s =
     emit ''autoplayStop'' [] ((stopAutoplay' s)\<lparr>autoplayEnabled := False, autoplayPaused := False\<rparr>)"

definition pauseAutoplay :: "pointy \<Rightarrow> pointy" where
  "pauseAutoplay s = emit ''autoplayPause'' [] ((stopAutoplay' s)\<lparr>autoplayPaused := True\<rparr>)"

definition resumeAutoplay :: "pointy \<Rightarrow> outcome" where
  "resumeAutoplay s =
     (if \<not> autoplayPaused s then returns s
      else scheduleAutoplay (emit ''autoplayResume'' [] (s\<lparr>autoplayPaused := False\<rparr>)))"

definition isAutoplayActive :: "pointy \<Rightarrow> bool" where
  "isAutoplayActive s = (truthy (autoplay s) \<and> autoplayEnabled s \<and> \<not> autoplayPaused s)"

subsection \<open>Lifecycle\<close>

text \<open>\<^verbatim>\<open>direction || null\<close>\<close>

fun or_null :: "string option \<Rightarrow> string option" where
  "or_null None = None"
| "or_null (Some d) = (if d = [] then None else Some d)"

text \<open>The \<^verbatim>\<open>isPointingUp\<close> member of what \<^verbatim>\<open>_getInitialPosition\<close> returns: it is there only
  for the preset \<^verbatim>\<open>'first-step'\<close> with a first step whose target resolves. The coordinates
  are geometry and appear in payloads as \<open>Opaque\<close>.\<close>

definition initialPointingUp :: "pointy \<Rightarrow> bool option" where
  "initialPointingUp s =
     (if initialPosition s = PosStr ''first-step'' \<and> steps s \<noteq> [] then
        (case getTargetElement (world s) (target (hd (steps s))) of
           Some el \<Rightarrow> Some (direction (hd (steps s)) \<noteq> Some ''down'')
         | None \<Rightarrow> None)
      else None)"

definition clearAutoHide :: "pointy \<Rightarrow> pointy" where
  "clearAutoHide s =
     (case hideOnCompleteTimeoutId s of
        Some i \<Rightarrow> (clearTimeout i s)\<lparr>hideOnCompleteTimeoutId := None\<rparr>
      | None \<Rightarrow> s)"

definition has_content :: "pointy \<Rightarrow> bool" where
  "has_content s = (0 < length (currentMessages s) \<and> list_ex (\<lambda>m. \<not> is_empty_msg m) (currentMessages s))"

definition "show" :: "pointy \<Rightarrow> outcome" where
  "show s =
     (let s1 = emit ''beforeShow'' [(''target'', elem_val (targetElement s))] s;
          s2 = clearAutoHide s1;
          s3 = s2\<lparr>attached := True\<rparr>
      in if \<not> hasShownBefore s3 then
           (let s4 = s3\<lparr>hasShownBefore := True\<rparr>;
                isFirstStepStart = (initialPosition s4 = PosStr ''first-step'');
                s5 = s4\<lparr>bubbleOpacity := ''0''\<rparr>;
                s6 = (case initialPointingUp s5 of
                        Some up \<Rightarrow> if isFirstStepStart then s5\<lparr>isPointingUp := up\<rparr> else s5
                      | None \<Rightarrow> s5);
                s7 = s6\<lparr>isVisible := True\<rparr>;
                s8 = emit ''introAnimationStart''
                       [(''duration'', Num (introFadeDuration s7)), (''initialPosition'', Opaque)] s7
            in returns (setTimeout (IntroFadeEnd isFirstStepStart) (introFadeDuration s8) s8))
         else
           (let s4 = startTracking (updatePosition (s3\<lparr>isVisible := True\<rparr>));
                s5 = (if messageCyclePausedByHide s4 \<and> truthy (messageInterval s4)
                         \<and> 1 < length (currentMessages s4)
                      then (startMessageCycle' s4)\<lparr>messageCyclePausedByHide := False\<rparr>
                      else if truthy (messageInterval s4) \<and> 1 < length (currentMessages s4)
                         \<and> messageIntervalId s4 = None
                      then startMessageCycle' s4
                      else s4);
                r = (if wasAutoplayActiveBeforeHide s5
                     then and_then (scheduleAutoplay s5)
                            (\<lambda>u. returns (u\<lparr>wasAutoplayActiveBeforeHide := False\<rparr>))
                     else returns s5)
            in and_then r (\<lambda>u. returns
                 (emit ''show'' [(''target'', elem_val (targetElement u)), (''isIntro'', Bool False)] u))))"

definition hide :: "pointy \<Rightarrow> pointy" where
  "hide s =
     (let s1 = emit ''beforeHide'' [(''target'', elem_val (targetElement s))] s;
          s2 = s1\<lparr>isVisible := False\<rparr>;
          s3 = (if resetPositionOnHide s2 then s2\<lparr>hasShownBefore := False\<rparr> else s2);
          s4 = stopTracking s3;
          s5 = (if messageIntervalId s4 \<noteq> None
                then (stopMessageCycle' s4)\<lparr>messageCyclePausedByHide := True\<rparr>
                else s4);
          s6 = s5\<lparr>wasAutoplayActiveBeforeHide :=
                     (truthy (autoplay s5) \<and> autoplayEnabled s5 \<and> \<not> autoplayPaused s5)\<rparr>;
          s7 = stopAutoplay' s6
      in emit ''hide'' [(''target'', elem_val (targetElement s7))] s7)"

definition destroy :: "pointy \<Rightarrow> pointy" where
  "destroy s =
     (let s1 = emit ''destroy'' [] s;
          s2 = s1\<lparr>attached := False, windowListening := False\<rparr>;
          s3 = stopTracking s2;
          s4 = clearAutoHide s3
      in s4\<lparr>eventListeners := Map.empty\<rparr>)"

definition reset :: "bool \<Rightarrow> pointy \<Rightarrow> pointy" where
  "reset goToFirstStep s =
     (let s1 = emit ''beforeReset'' [(''currentStep'', Num (of_int (currentStepIndex s)))] s;
          s2 = stopMessageCycle' s1;
          s3 = clearAutoHide s2;
          s4 = s3\<lparr>moving := True\<rparr>;
          s5 = (case moveTimeout s4 of Some i \<Rightarrow> clearTimeout i s4 | None \<Rightarrow> s4);
          s6 = s5\<lparr>bubbleOpacity := ''0''\<rparr>;
          s7 = (if goToFirstStep \<and> 0 < length (steps s6) then
                  (let firstStep = hd (steps s6);
                       t1 = s6\<lparr>currentStepIndex := 0,
                               targetElement := getTargetElement (world s6) (target firstStep),
                               currentMessages := as_messages (content firstStep),
                               currentMessageIndex := 0\<rparr>
                   in renderContent (msg_at (currentMessages t1) 0) t1)
                else s6)
      in (setTimeout ResetSettle (animationDuration s7) s7)\<lparr>moveTimeout := Some (nextId s7)\<rparr>)"

definition goToStep :: "int \<Rightarrow> pointy \<Rightarrow> pointy" where
  "goToStep index s =
     (if length (steps s) = 0 \<or> index < 0 \<or> int (length (steps s)) \<le> index then s
      else
        (let s1 = (stopAutoplay' s)\<lparr>messagesCompletedForStep := False\<rparr>;
             previousIndex = currentStepIndex s1;
             previousTarget = targetElement s1;
             s2 = s1\<lparr>currentStepIndex := index\<rparr>;
             stp = steps s2 ! nat (currentStepIndex s2);
             s3 = emit ''beforeStepChange''
                    [(''fromIndex'', Num (of_int previousIndex)), (''toIndex'', Num (of_int index)),
                     (''step'', step_val stp), (''fromTarget'', elem_val previousTarget)] s2;
             s4 = s3\<lparr>manualDirection := or_null (direction stp), targetYHistory := [],
                     lastTargetY := None, moving := True\<rparr>;
             s5 = (case moveTimeout s4 of Some i \<Rightarrow> clearTimeout i s4 | None \<Rightarrow> s4);
             s6 = emit ''animationStart''
                    [(''fromTarget'', elem_val previousTarget),
                     (''toTarget'', elem_val (getTargetElement (world s5) (target stp))),
                     (''type'', Str ''step''), (''stepIndex'', Num (of_int index))] s5;
             s7 = (setTimeout (StepSettle index stp previousTarget) (animationDuration s6) s6)
                    \<lparr>moveTimeout := Some (nextId s6)\<rparr>;
             s8 = emit ''move'' [(''index'', Num (of_int index)), (''step'', step_val stp)] s7;
             s9 = applyMessages (content stp) True s8;
             s10 = updatePosition (s9\<lparr>targetElement := getTargetElement (world s9) (target stp)\<rparr>);
             s11 = emit ''stepChange''
                     [(''fromIndex'', Num (of_int previousIndex)), (''toIndex'', Num (of_int index)),
                      (''step'', step_val stp), (''target'', elem_val (targetElement s10))] s10
         in if onStepChange s11
            then s11\<lparr>userCalls := userCalls s11 @
                   [(''onStepChange'', [Num (of_int (currentStepIndex s11)), step_val stp])]\<rparr>
            else s11))"

definition "next" :: "pointy \<Rightarrow> pointy" where
  "next s =
     (if length (steps s) = 0 then s
      else if currentStepIndex s < int (length (steps s)) - 1 then
        goToStep (currentStepIndex s + 1)
          (emit ''next'' [(''fromIndex'', Num (of_int (currentStepIndex s))),
                          (''toIndex'', Num (of_int (currentStepIndex s + 1)))] s)
      else
        (let wasAutoplayActive = (truthy (autoplay s) \<and> autoplayEnabled s \<and> \<not> autoplayPaused s);
             s1 = emit ''complete''
                    [(''totalSteps'', Num (of_nat (length (steps s)))),
                     (''source'', Str (if wasAutoplayActive then ''autoplay'' else ''manual''))] s;
             s2 = (if wasAutoplayActive
                   then emit ''autoplayComplete'' [(''totalSteps'', Num (of_nat (length (steps s1))))]
                          ((stopAutoplay' s1)\<lparr>autoplayEnabled := False\<rparr>)
                   else s1);
             s3 = (if resetOnComplete s2 then
                     (let t1 = reset True s2
                      in if hideOnComplete t1 then
                           (let hideDelay = (case hideOnCompleteDelay t1 of
                                               Some d \<Rightarrow> d | None \<Rightarrow> animationDuration t1);
                                source = (if wasAutoplayActive then ''autoplay'' else ''manual'')
                            in (setTimeout (AutoHide hideDelay source)
                                  (animationDuration t1 + hideDelay) t1)
                                 \<lparr>hideOnCompleteTimeoutId := Some (nextId t1)\<rparr>)
                         else t1)
                   else if hideOnComplete s2 then
                     (let delay = (case hideOnCompleteDelay s2 of
                                     Some d \<Rightarrow> d | None \<Rightarrow> animationDuration s2);
                          source = (if wasAutoplayActive then ''autoplay'' else ''manual'')
                      in (setTimeout (AutoHide delay source) delay s2)
                           \<lparr>hideOnCompleteTimeoutId := Some (nextId s2)\<rparr>)
                   else s2)
         in if onComplete s3 then s3\<lparr>userCalls := userCalls s3 @ [(''onComplete'', [])]\<rparr>
            else s3))"

definition prev :: "pointy \<Rightarrow> pointy" where
  "prev s =
     (if length (steps s) = 0 then s
      else if 0 < currentStepIndex s then
        goToStep (currentStepIndex s - 1)
          (emit ''prev'' [(''fromIndex'', Num (of_int (currentStepIndex s))),
                          (''toIndex'', Num (of_int (currentStepIndex s - 1)))] s)
      else s)"

definition restart :: "pointy \<Rightarrow> outcome" where
  "restart s =
     (let s1 = (emit ''beforeRestart'' [] s)\<lparr>hasShownBefore := False\<rparr>
      in if isVisible s1 then
           (let s2 = (stopMessageCycle' (stopTracking s1))\<lparr>isVisible := False\<rparr>
            in returns (setTimeout RestartDelay 50 s2))
         else and_then (show (goToStep 0 s1)) (\<lambda>u. returns (emit ''restart'' [] u)))"

definition pointTo :: "target \<Rightarrow> val \<Rightarrow> string option \<Rightarrow> pointy \<Rightarrow> outcome" where
  "pointTo tgt c dir s =
     (let previousTarget = targetElement s;
          actualDirection = (case or_null dir of Some d \<Rightarrow> d | None \<Rightarrow> ''auto'');
          s1 = emit ''beforePointTo''
                 [(''target'', elem_val (getTargetElement (world s) tgt)), (''content'', c),
                  (''direction'', Str actualDirection), (''fromTarget'', elem_val previousTarget)] s;
          s2 = s1\<lparr>manualDirection := or_null dir, targetYHistory := [], lastTargetY := None,
                  moving := True\<rparr>;
          s3 = (case moveTimeout s2 of Some i \<Rightarrow> clearTimeout i s2 | None \<Rightarrow> s2);
          toTarget = getTargetElement (world s3) tgt;
          s4 = emit ''animationStart''
                 [(''fromTarget'', elem_val previousTarget), (''toTarget'', elem_val toTarget),
                  (''type'', Str ''pointTo''), (''content'', c)] s3;
          s5 = s4\<lparr>targetElement := toTarget\<rparr>;
          s6 = (if c \<noteq> Undefined then applyMessages c False s5 else s5);
          s7 = updatePosition s6;
          resolvedDirection = (if isPointingUp s7 then ''up'' else ''down'');
          s8 = (setTimeout (PointToSettle c resolvedDirection previousTarget) (animationDuration s7) s7)
                 \<lparr>moveTimeout := Some (nextId s7)\<rparr>;
          s9 = emit ''pointTo''
                 [(''target'', elem_val (targetElement s8)), (''content'', c),
                  (''direction'', Str resolvedDirection)] s8
      in if \<not> isVisible s9 then show s9 else returns s9)"

definition animateToInitialPosition :: "pointy \<Rightarrow> pointy" where
  "animateToInitialPosition s =
     (if \<not> isVisible s then s
      else (let s1 = (stopTracking s)\<lparr>bubbleOpacity := ''0''\<rparr>
            in setTimeout ReanimateFadeIn (introFadeDuration s1) s1))"

definition updateTarget :: "target \<Rightarrow> pointy \<Rightarrow> pointy" where
  "updateTarget newTarget s =
     (let oldTarget = targetElement s;
          s1 = updatePosition (s\<lparr>targetElement := getTargetElement (world s) newTarget\<rparr>)
      in emit ''targetChange'' [(''from'', elem_val oldTarget), (''to'', elem_val (targetElement s1))] s1)"

subsection \<open>Configuration setters\<close>

definition setResetOnComplete :: "bool \<Rightarrow> pointy \<Rightarrow> pointy" where
  "setResetOnComplete v s =
     (let oldValue = resetOnComplete s
      in if oldValue = v then s
         else emit ''resetOnCompleteChange'' [(''from'', Bool oldValue), (''to'', Bool v)]
                (s\<lparr>resetOnComplete := v\<rparr>))"

definition setFloatingAnimation :: "bool \<Rightarrow> pointy \<Rightarrow> pointy" where
  "setFloatingAnimation enabled s =
     (let oldValue = floatingAnimation s
      in if oldValue = enabled then s
         else emit ''floatingAnimationChange'' [(''from'', Bool oldValue), (''to'', Bool enabled)]
                (s\<lparr>floatingAnimation := enabled\<rparr>))"

definition setTracking :: "bool \<Rightarrow> pointy \<Rightarrow> pointy" where
  "setTracking enabled s =
     (let oldValue = tracking s
      in if oldValue = enabled then s
         else
           (let s1 = s\<lparr>tracking := enabled\<rparr>;
                s2 = (if enabled \<and> isVisible s1 then startTracking s1
                      else if \<not> enabled then stopTracking s1
                      else s1)
            in emit ''trackingChange'' [(''from'', Bool oldValue), (''to'', Bool enabled)] s2))"

definition setTrackingFps :: "real \<Rightarrow> pointy \<Rightarrow> pointy" where
  "setTrackingFps fps s =
     (let oldValue = trackingFps s
      in if oldValue = fps then s
         else emit ''trackingFpsChange'' [(''from'', Num oldValue), (''to'', Num fps)]
                (s\<lparr>trackingFps := fps\<rparr>))"

definition setMessageInterval :: "real option \<Rightarrow> pointy \<Rightarrow> pointy" where
  "setMessageInterval interval s =
     (let oldInterval = messageInterval s
      in if oldInterval = interval then s
         else
           (let s1 = stopMessageCycle' (s\<lparr>messageInterval := interval\<rparr>);
                s2 = (if truthy interval \<and> 1 < length (currentMessages s1)
                      then startMessageCycle' s1 else s1)
            in emit ''messageIntervalChange''
                 [(''from'', num_val oldInterval), (''to'', num_val interval)] s2))"

definition setOffset :: "real \<Rightarrow> real \<Rightarrow> pointy \<Rightarrow> pointy" where
  "setOffset x y s =
     (let oldOffsetX = offsetX s; oldOffsetY = offsetY s
      in if oldOffsetX = x \<and> oldOffsetY = y then s
         else emit ''offsetChange''
                [(''from'', Obj [(''x'', Num oldOffsetX), (''y'', Num oldOffsetY)]),
                 (''to'', Obj [(''x'', Num x), (''y'', Num y)])]
                (updatePosition (s\<lparr>offsetX := x, offsetY := y\<rparr>)))"

definition setAnimationDuration :: "real \<Rightarrow> pointy \<Rightarrow> pointy" where
  "setAnimationDuration d s =
     (let oldDuration = animationDuration s
      in if oldDuration = d then s
         else emit ''animationDurationChange'' [(''from'', Num oldDuration), (''to'', Num d)]
                (s\<lparr>animationDuration := d\<rparr>))"

definition setIntroFadeDuration :: "real \<Rightarrow> pointy \<Rightarrow> pointy" where
  "setIntroFadeDuration d s =
     (let oldDuration = introFadeDuration s
      in if oldDuration = d then s
         else emit ''introFadeDurationChange'' [(''from'', Num oldDuration), (''to'', Num d)]
                (s\<lparr>introFadeDuration := d\<rparr>))"

definition setBubbleFadeDuration :: "real \<Rightarrow> pointy \<Rightarrow> pointy" where
  "setBubbleFadeDuration d s =
     (let oldDuration = bubbleFadeDuration s
      in if oldDuration = d then s
         else emit ''bubbleFadeDurationChange'' [(''from'', Num oldDuration), (''to'', Num d)]
                (s\<lparr>bubbleFadeDuration := d\<rparr>))"

definition validPresets :: "string list" where
  "validPresets = [''center'', ''top-left'', ''top-center'', ''top-right'', ''middle-left'',
     ''middle-right'', ''bottom-left'', ''bottom-center'', ''bottom-right'', ''first-step'']"

fun invalid_position :: "position \<Rightarrow> bool" where
  "invalid_position (PosStr p) =
     (\<not> startsWith p ''#'' \<and> \<not> startsWith p ''.'' \<and> p \<notin> set validPresets)"
| "invalid_position (PosElem el) = False"

definition setInitialPosition :: "position \<Rightarrow> pointy \<Rightarrow> pointy" where
  "setInitialPosition p s =
     (if invalid_position p
      then s\<lparr>console := console s @ [ConsoleWarn ''Invalid initial position'']\<rparr>
      else
        (let oldPosition = initialPosition s
         in if oldPosition = p then s
            else emit ''initialPositionChange''
                   [(''from'', position_val oldPosition), (''to'', position_val p)]
                   (s\<lparr>initialPosition := p\<rparr>)))"

definition setInitialPositionOffset :: "real \<Rightarrow> pointy \<Rightarrow> pointy" where
  "setInitialPositionOffset d s =
     (let oldOffset = initialPositionOffset s
      in if oldOffset = d then s
         else emit ''initialPositionOffsetChange'' [(''from'', Num oldOffset), (''to'', Num d)]
                (s\<lparr>initialPositionOffset := d\<rparr>))"

definition setEasing :: "string \<Rightarrow> pointy \<Rightarrow> pointy" where
  "setEasing e s =
     (let oldEasing = easing s
      in if oldEasing = e then s
         else emit ''easingChange'' [(''from'', Str oldEasing), (''to'', Str e)] (s\<lparr>easing := e\<rparr>))"

definition setMessageTransitionDuration :: "real \<Rightarrow> pointy \<Rightarrow> pointy" where
  "setMessageTransitionDuration d s =
     (let oldDuration = messageTransitionDuration s
      in if oldDuration = d then s
         else emit ''messageTransitionDurationChange'' [(''from'', Num oldDuration), (''to'', Num d)]
                (s\<lparr>messageTransitionDuration := d\<rparr>))"

definition setPointerSvg :: "val \<Rightarrow> pointy \<Rightarrow> pointy" where
  "setPointerSvg svg s =
     (let oldSvg = pointerSvg s
      in if oldSvg = svg then s
         else emit ''pointerSvgChange'' [(''from'', oldSvg), (''to'', svg)] (s\<lparr>pointerSvg := svg\<rparr>))"

definition setAutoplayInterval :: "real option \<Rightarrow> pointy \<Rightarrow> outcome" where
  "setAutoplayInterval interval s =
     (let oldInterval = autoplay s
      in if oldInterval = interval then returns s
         else
           (let s1 = emit ''autoplayChange'' [(''from'', num_val oldInterval), (''to'', num_val interval)]
                       (s\<lparr>autoplay := interval\<rparr>)
            in if autoplayEnabled s1 \<and> truthy interval \<and> isVisible s1
               then scheduleAutoplay (stopAutoplay' s1)
               else if \<not> truthy interval
               then returns ((stopAutoplay' s1)\<lparr>autoplayEnabled := False\<rparr>)
               else returns s1))"

definition setAutoplayWaitForMessages :: "bool \<Rightarrow> pointy \<Rightarrow> pointy" where
  "setAutoplayWaitForMessages wait s =
     (let oldValue = autoplayWaitForMessages s
      in if oldValue = wait then s
         else emit ''autoplayWaitForMessagesChange'' [(''from'', Bool oldValue), (''to'', Bool wait)]
                (s\<lparr>autoplayWaitForMessages := wait\<rparr>))"

definition setHideOnComplete :: "bool \<Rightarrow> pointy \<Rightarrow> pointy" where
  "setHideOnComplete v s =
     (let oldValue = hideOnComplete s
      in if oldValue = v then s
         else emit ''hideOnCompleteChange'' [(''from'', Bool oldValue), (''to'', Bool v)]
                (s\<lparr>hideOnComplete := v\<rparr>))"

definition setHideOnCompleteDelay :: "real option \<Rightarrow> pointy \<Rightarrow> pointy" where
  "setHideOnCompleteDelay d s =
     (let oldValue = hideOnCompleteDelay s
      in if oldValue = d then s
         else emit ''hideOnCompleteDelayChange'' [(''from'', num_val oldValue), (''to'', num_val d)]
                (s\<lparr>hideOnCompleteDelay := d\<rparr>))"

text \<open>The legacy \<^verbatim>\<open>setAutoplay\<close>: \<^verbatim>\<open>setAutoplayInterval\<close>, then a full restart with autoplay
  enabled when the interval is set and the pointer is visible.\<close>

definition setAutoplay :: "real option \<Rightarrow> pointy \<Rightarrow> outcome" where
  "setAutoplay interval s =
     and_then (setAutoplayInterval interval s)
       (\<lambda>u. if truthy interval \<and> isVisible u
            then restart (u\<lparr>autoplayEnabled := True, autoplayPaused := False\<rparr>)
            else returns u)"

text \<open>The configuration setters as one family: a call names the setter and carries its
  arguments.\<close>

datatype setter_call =
    SetResetOnComplete bool
  | SetFloatingAnimation bool
  | SetTracking bool
  | SetTrackingFps real
  | SetMessageInterval "real option"
  | SetOffset real real
  | SetAnimationDuration real
  | SetIntroFadeDuration real
  | SetBubbleFadeDuration real
  | SetInitialPosition position
  | SetInitialPositionOffset real
  | SetEasing string
  | SetMessageTransitionDuration real
  | SetPointerSvg val
  | SetAutoplayInterval "real option"
  | SetAutoplayWaitForMessages bool
  | SetHideOnComplete bool
  | SetHideOnCompleteDelay "real option"

fun call_setter :: "setter_call \<Rightarrow> pointy \<Rightarrow> outcome" where
  "call_setter (SetResetOnComplete v) s = returns (setResetOnComplete v s)"
| "call_setter (SetFloatingAnimation v) s = returns (setFloatingAnimation v s)"
| "call_setter (SetTracking v) s = returns (setTracking v s)"
| "call_setter (SetTrackingFps v) s = returns (setTrackingFps v s)"
| "call_setter (SetMessageInterval v) s = returns (setMessageInterval v s)"
| "call_setter (SetOffset x y) s = returns (setOffset x y s)"
| "call_setter (SetAnimationDuration v) s = returns (setAnimationDuration v s)"
| "call_setter (SetIntroFadeDuration v) s = returns (setIntroFadeDuration v s)"
| "call_setter (SetBubbleFadeDuration v) s = returns (setBubbleFadeDuration v s)"
| "call_setter (SetInitialPosition v) s = returns (setInitialPosition v s)"
| "call_setter (SetInitialPositionOffset v) s = returns (setInitialPositionOffset v s)"
| "call_setter (SetEasing v) s = returns (setEasing v s)"
| "call_setter (SetMessageTransitionDuration v) s = returns (setMessageTransitionDuration v s)"
| "call_setter (SetPointerSvg v) s = returns (setPointerSvg v s)"
| "call_setter (SetAutoplayInterval v) s = setAutoplayInterval v s"
| "call_setter (SetAutoplayWaitForMessages v) s = returns (setAutoplayWaitForMessages v s)"
| "call_setter (SetHideOnComplete v) s = returns (setHideOnComplete v s)"
| "call_setter (SetHideOnCompleteDelay v) s = returns (setHideOnCompleteDelay v s)"

text \<open>The arguments of the call are the values the instance holds now.\<close>

fun is_current :: "setter_call \<Rightarrow> pointy \<Rightarrow> bool" where
  "is_current (SetResetOnComplete v) s = (resetOnComplete s = v)"
| "is_current (SetFloatingAnimation v) s = (floatingAnimation s = v)"
| "is_current (SetTracking v) s = (tracking s = v)"
| "is_current (SetTrackingFps v) s = (trackingFps s = v)"
| "is_current (SetMessageInterval v) s = (messageInterval s = v)"
| "is_current (SetOffset x y) s = (offsetX s = x \<and> offsetY s = y)"
| "is_current (SetAnimationDuration v) s = (animationDuration s = v)"
| "is_current (SetIntroFadeDuration v) s = (introFadeDuration s = v)"
| "is_current (SetBubbleFadeDuration v) s = (bubbleFadeDuration s = v)"
| "is_current (SetInitialPosition v) s = (initialPosition s = v)"
| "is_current (SetInitialPositionOffset v) s = (initialPositionOffset s = v)"
| "is_current (SetEasing v) s = (easing s = v)"
| "is_current (SetMessageTransitionDuration v) s = (messageTransitionDuration s = v)"
| "is_current (SetPointerSvg v) s = (pointerSvg s = v)"
| "is_current (SetAutoplayInterval v) s = (autoplay s = v)"
| "is_current (SetAutoplayWaitForMessages v) s = (autoplayWaitForMessages s = v)"
| "is_current (SetHideOnComplete v) s = (hideOnComplete s = v)"
| "is_current (SetHideOnCompleteDelay v) s = (hideOnCompleteDelay s = v)"

subsection \<open>Timer callbacks\<close>

definition show_bubble_if_content :: "pointy \<Rightarrow> pointy" where
  "show_bubble_if_content s = (if has_content s then s\<lparr>bubbleOpacity := ''1''\<rparr> else s\<lparr>bubbleOpacity := ''0''\<rparr>)"

definition start_cycle_if_multi :: "pointy \<Rightarrow> pointy" where
  "start_cycle_if_multi s =
     (if truthy (messageInterval s) \<and> 1 < length (currentMessages s) \<and> messageIntervalId s = None
      then startMessageCycle' s else s)"

fun run_cb :: "timer_cb \<Rightarrow> pointy \<Rightarrow> outcome" where
  "run_cb (TextSwap newContent revealTime) s =
     returns (updatePosition (setTimeout DomOnly (revealTime + 100) (renderContent newContent s)))"
| "run_cb DomOnly s = returns s"
| "run_cb (IntroFadeEnd isFirstStepStart) s =
     (let s1 = emit ''introAnimationEnd'' [(''initialPosition'', Opaque)] s
      in if isFirstStepStart then
           (let s2 = show_bubble_if_content (startTracking s1);
                s3 = setTimeout DomOnly (bubbleFadeDuration s2) s2;
                s4 = start_cycle_if_multi s3
            in and_then (scheduleAutoplay s4)
                 (\<lambda>u. returns (emit ''show''
                    [(''target'', elem_val (targetElement u)), (''isIntro'', Bool True),
                     (''isFirstStep'', Bool True)] u)))
         else
           (let s2 = startTracking (updatePosition s1);
                s3 = setTimeout IntroArrive (animationDuration s2) s2
            in returns (emit ''show''
                 [(''target'', elem_val (targetElement s3)), (''isIntro'', Bool True),
                  (''isFirstStep'', Bool False)] s3)))"
| "run_cb IntroArrive s = scheduleAutoplay (start_cycle_if_multi (show_bubble_if_content s))"
| "run_cb RestartDelay s =
     and_then (show (goToStep 0 s)) (\<lambda>u. returns (emit ''restart'' [] u))"
| "run_cb ResetSettle s =
     (let s1 = s\<lparr>moving := False, hasShownBefore := False\<rparr>
      in returns (emit ''reset'' [(''stepIndex'', Num (of_int (currentStepIndex s1)))] s1))"
| "run_cb MessageTick s =
     (let isLastMessage = (currentMessageIndex s = int (length (currentMessages s)) - 1)
      in if isLastMessage \<and> truthy (autoplay s) \<and> autoplayWaitForMessages s then
           (let s1 = (stopMessageCycle' s)\<lparr>messagesCompletedForStep := True\<rparr>;
                s2 = emit ''messageCycleComplete''
                       [(''stepIndex'', Num (of_int (currentStepIndex s1))),
                        (''totalMessages'', Num (of_nat (length (currentMessages s1))))] s1
            in returns (scheduleAutoplayAfterMessages s2))
         else returns (snd (nextMessage True s)))"
| "run_cb ReanimateFadeIn s =
     (let s1 = startTracking (updatePosition s)
      in returns (setTimeout ShowBubble (animationDuration s1) s1))"
| "run_cb ShowBubble s = returns (s\<lparr>bubbleOpacity := ''1''\<rparr>)"
| "run_cb (StepSettle index stp previousTarget) s =
     (let s1 = s\<lparr>moving := False\<rparr>;
          s2 = emit ''moveComplete''
                 [(''index'', Num (of_int index)), (''step'', step_val stp),
                  (''target'', elem_val (targetElement s1))] s1;
          s3 = emit ''animationEnd''
                 [(''fromTarget'', elem_val previousTarget), (''toTarget'', elem_val (targetElement s2)),
                  (''type'', Str ''step''), (''stepIndex'', Num (of_int index))] s2
      in scheduleAutoplay s3)"
| "run_cb (AutoplayAdvance d) s =
     (if \<not> autoplayPaused s \<and> isVisible s \<and> autoplayEnabled s
      then returns (next (emit ''autoplayNext''
             [(''fromIndex'', Num (of_int (currentStepIndex s))), (''duration'', Num d)] s))
      else returns s)"
| "run_cb AutoplayAfterMessages s =
     (if \<not> autoplayPaused s \<and> isVisible s \<and> messagesCompletedForStep s
      then returns (next (emit ''autoplayNext''
             [(''fromIndex'', Num (of_int (currentStepIndex s))), (''afterMessages'', Bool True)] s))
      else returns s)"
| "run_cb (AutoHide d source) s =
     returns (emit ''autoHide'' [(''delay'', Num d), (''source'', Str source)] (hide s))"
| "run_cb (PointToSettle c dir previousTarget) s =
     (let s1 = s\<lparr>moving := False\<rparr>;
          s2 = emit ''pointToComplete''
                 [(''target'', elem_val (targetElement s1)), (''content'', c), (''direction'', Str dir)] s1
      in returns (emit ''animationEnd''
           [(''fromTarget'', elem_val previousTarget), (''toTarget'', elem_val (targetElement s2)),
            (''type'', Str ''pointTo''), (''content'', c)] s2))"
| "run_cb TrackFrame s = returns (trackPosition s)"

text \<open>The host runs the pending timer \<open>i\<close>. A timeout or a frame request leaves the table
  before its callback runs, an interval stays; an exception that escapes the callback is
  reported by the host and goes no further.\<close>

definition fire :: "nat \<Rightarrow> pointy \<Rightarrow> pointy" where
  "fire i s =
     (case find (\<lambda>t. tid t = i) (timers s) of
        None \<Rightarrow> s
      | Some t \<Rightarrow>
          (let s1 = (if kind t = Interval then s
                     else s\<lparr>timers := filter (\<lambda>u. tid u \<noteq> i) (timers s)\<rparr>);
               r = run_cb (cb t) s1
           in case fst r of
                None \<Rightarrow> snd r
              | Some e \<Rightarrow> (snd r)\<lparr>console := console (snd r) @ [Uncaught e]\<rparr>))"

definition pending :: "pointy \<Rightarrow> nat \<Rightarrow> bool" where
  "pending s i = (find (\<lambda>t. tid t = i) (timers s) \<noteq> None)"

subsection \<open>Construction\<close>

text \<open>The options object: \<open>None\<close> is a member that is \<^verbatim>\<open>undefined\<close> (for \<open>opt_autoplay\<close>,
  \<open>opt_messageInterval\<close> and \<open>opt_hideOnCompleteDelay\<close> also \<^verbatim>\<open>null\<close>).\<close>

record options =
  opt_steps :: "step list option"
  opt_offsetX :: "real option"
  opt_offsetY :: "real option"
  opt_tracking :: "bool option"
  opt_trackingFps :: "real option"
  opt_animationDuration :: "real option"
  opt_introFadeDuration :: "real option"
  opt_bubbleFadeDuration :: "real option"
  opt_messageTransitionDuration :: "real option"
  opt_easing :: "string option"
  opt_resetOnComplete :: "bool option"
  opt_floatingAnimation :: "bool option"
  opt_initialPosition :: "position option"
  opt_initialPositionOffset :: "real option"
  opt_resetPositionOnHide :: "bool option"
  opt_autoplay :: "real option"
  opt_autoplayEnabled :: "bool option"
  opt_autoplayWaitForMessages :: "bool option"
  opt_hideOnComplete :: "bool option"
  opt_hideOnCompleteDelay :: "real option"
  opt_onStepChange :: bool
  opt_onComplete :: bool
  opt_target :: target
  opt_content :: val
  opt_messageInterval :: "real option"
  opt_pointerSvg :: "val option"

definition no_options :: options where
  "no_options = \<lparr>opt_steps = None, opt_offsetX = None, opt_offsetY = None, opt_tracking = None,
     opt_trackingFps = None, opt_animationDuration = None, opt_introFadeDuration = None,
     opt_bubbleFadeDuration = None, opt_messageTransitionDuration = None, opt_easing = None,
     opt_resetOnComplete = None, opt_floatingAnimation = None, opt_initialPosition = None,
     opt_initialPositionOffset = None, opt_resetPositionOnHide = None, opt_autoplay = None,
     opt_autoplayEnabled = None, opt_autoplayWaitForMessages = None, opt_hideOnComplete = None,
     opt_hideOnCompleteDelay = None, opt_onStepChange = False, opt_onComplete = False,
     opt_target = NoTarget, opt_content = Undefined, opt_messageInterval = None,
     opt_pointerSvg = None\<rparr>"

definition or_default :: "'a option \<Rightarrow> 'a \<Rightarrow> 'a" where
  "or_default v d = (case v of Some x \<Rightarrow> x | None \<Rightarrow> d)"

text \<open>\<^verbatim>\<open>options.autoplay || null\<close>\<close>

definition num_or_null :: "real option \<Rightarrow> real option" where
  "num_or_null v = (if truthy v then v else None)"

definition initial_messages :: "options \<Rightarrow> val list" where
  "initial_messages opts =
     (if 0 < length (or_default (opt_steps opts) [])
      then as_messages (content (hd (or_default (opt_steps opts) [])))
      else as_messages (if is_empty_msg (opt_content opts) then Str [] else opt_content opts))"

definition new_pointy :: "env \<Rightarrow> options \<Rightarrow> pointy" where
  "new_pointy w opts =
     \<lparr>steps = or_default (opt_steps opts) [],
      offsetX = or_default (opt_offsetX opts) 20,
      offsetY = or_default (opt_offsetY opts) 16,
      tracking = or_default (opt_tracking opts) True,
      trackingFps = or_default (opt_trackingFps opts) 60,
      animationDuration = or_default (opt_animationDuration opts) 1000,
      introFadeDuration = or_default (opt_introFadeDuration opts) 1000,
      bubbleFadeDuration = or_default (opt_bubbleFadeDuration opts) 500,
      messageTransitionDuration = or_default (opt_messageTransitionDuration opts) 500,
      easing = or_default (opt_easing opts) ''default'',
      resetOnComplete = or_default (opt_resetOnComplete opts) True,
      floatingAnimation = or_default (opt_floatingAnimation opts) True,
      initialPosition =
        (case opt_initialPosition opts of
           Some (PosStr p) \<Rightarrow> if p = [] then PosStr ''center'' else PosStr p
         | Some (PosElem el) \<Rightarrow> PosElem el
         | None \<Rightarrow> PosStr ''center''),
      initialPositionOffset = or_default (opt_initialPositionOffset opts) 32,
      resetPositionOnHide = or_default (opt_resetPositionOnHide opts) False,
      autoplay = num_or_null (opt_autoplay opts),
      autoplayEnabled = or_default (opt_autoplayEnabled opts) False,
      autoplayWaitForMessages = or_default (opt_autoplayWaitForMessages opts) True,
      hideOnComplete = or_default (opt_hideOnComplete opts) True,
      hideOnCompleteDelay = opt_hideOnCompleteDelay opts,
      autoplayTimeoutId = None,
      autoplayPaused = False,
      messagesCompletedForStep = False,
      hideOnCompleteTimeoutId = None,
      onStepChange = opt_onStepChange opts,
      onComplete = opt_onComplete opts,
      eventListeners = Map.empty,
      targetElement =
        (if 0 < length (or_default (opt_steps opts) [])
         then getTargetElement w (target (hd (or_default (opt_steps opts) [])))
         else getTargetElement w (opt_target opts)),
      currentStepIndex = 0,
      currentMessageIndex = 0,
      currentMessages = initial_messages opts,
      messageInterval = num_or_null (opt_messageInterval opts),
      messageIntervalId = None,
      isVisible = False,
      isPointingUp = True,
      lastTargetY = None,
      targetYHistory = [],
      lastDirectionChangeTime = 0,
      manualDirection = None,
      moveTimeout = None,
      hasShownBefore = False,
      messageCyclePausedByHide = False,
      messageCyclePaused = False,
      wasAutoplayActiveBeforeHide = False,
      rafId = None,
      lastTrackTime = 0,
      pointerSvg = or_default (opt_pointerSvg opts) Opaque,
      attached = False,
      windowListening = True,
      moving = False,
      bubbleOpacity = [],
      bubbleText = msg_at (initial_messages opts) 0,
      world = w,
      timers = [],
      nextId = 1,
      emitted = [],
      delivered = [],
      userCalls = [],
      console = []\<rparr>"

text \<open>The host moves on: the clocks advance and the page may be laid out anew.\<close>

definition host :: "env \<Rightarrow> pointy \<Rightarrow> pointy" where
  "host w s = s\<lparr>world := w\<rparr>"

subsection \<open>Vocabulary of the properties\<close>

text \<open>The handlers subscribed under a key, in subscription order.\<close>

definition listeners :: "pointy \<Rightarrow> string \<Rightarrow> callback list" where
  "listeners s key = (case eventListeners s key of Some hs \<Rightarrow> hs | None \<Rightarrow> [])"

definition group_listeners :: "pointy \<Rightarrow> string \<Rightarrow> callback list" where
  "group_listeners s ev = (case getEventGroup ev of Some g \<Rightarrow> listeners s g | None \<Rightarrow> [])"

text \<open>The object a handler receives for an event.\<close>

definition event_data :: "string \<Rightarrow> (string \<times> val) list \<Rightarrow> event" where
  "event_data ev data = (ev, set_field ''pointy'' This (set_field ''type'' (Str ev) data))"

text \<open>The console lines one pass over the handlers \<open>hs\<close> leaves: one per handler that throws.\<close>

definition logged :: "string \<Rightarrow> string \<Rightarrow> callback list \<Rightarrow> log_entry list" where
  "logged label ev hs =
     map (\<lambda>h. ConsoleError label (HandlerError (cb_id h))) (filter (\<lambda>h. cb_throws h ev) hs)"

text \<open>Every event name that some list of \<^verbatim>\<open>EVENT_GROUPS\<close> holds.\<close>

definition explicit_events :: "string list" where
  "explicit_events = concat (map snd EVENT_GROUPS)"



subsection \<open>Example instances\<close>

definition demo_env :: env where
  "demo_env = \<lparr>dateNow = 0, perfNow = 0, pageTop = (\<lambda>el. 0), querySelector = (\<lambda>q. None)\<rparr>"

text \<open>Handlers under an event name, its group, the config group and both wildcards; the
  first one throws.\<close>

definition bus_demo :: pointy where
  "bus_demo =
     on ''all'' (Callback 4 (\<lambda>ev. False))
       (on ''*'' (Callback 3 (\<lambda>ev. False))
         (on ''lifecycle'' (Callback 2 (\<lambda>ev. False))
           (on ''config'' (Callback 5 (\<lambda>ev. False))
             (on ''show'' (Callback 1 (\<lambda>ev. True)) (new_pointy demo_env no_options)))))"




section \<open>Properties\<close>

subsection \<open>Event bus\<close>

lemma call_each_eq:
  "call_each label hs e s =
     s\<lparr>delivered := delivered s @ map (\<lambda>h. (cb_id h, e)) hs,
       console := console s @ logged label (fst e) hs\<rparr>"
  by (induction hs arbitrary: s) (auto simp: Let_def invoke_def logged_def)

lemma call_listeners_eq:
  "call_listeners label key e s =
     s\<lparr>delivered := delivered s @ map (\<lambda>h. (cb_id h, e)) (listeners s key),
       console := console s @ logged label (fst e) (listeners s key)\<rparr>"
  by (simp add: call_listeners_def listeners_def call_each_eq logged_def split: option.splits)

lemma listeners_upd [simp]:
  "listeners (s\<lparr>delivered := d\<rparr>) = listeners s"
  "listeners (s\<lparr>console := c\<rparr>) = listeners s"
  "listeners (s\<lparr>emitted := e\<rparr>) = listeners s"
  by (simp_all add: listeners_def fun_eq_iff)

text \<open>\<^verbatim>\<open>_emit\<close> in closed form: it extends the three logs and touches nothing else.\<close>

lemma emit_eq:
  "emit ev data s =
     s\<lparr>emitted := emitted s @ [event_data ev data],
       delivered := delivered s @ map (\<lambda>h. (cb_id h, event_data ev data))
         (listeners s ev @ group_listeners s ev @ listeners s ''*'' @ listeners s ''all''),
       console := console s
         @ logged (''Pointy: Error in '' @ ev @ '' event handler:'') ev (listeners s ev)
         @ (case getEventGroup ev of
              Some g \<Rightarrow> logged (''Pointy: Error in '' @ g @ '' group handler for '' @ ev @ '':'') ev
                          (listeners s g)
            | None \<Rightarrow> [])
         @ logged (''Pointy: Error in wildcard handler for '' @ ev @ '':'') ev (listeners s ''*'')
         @ logged (''Pointy: Error in wildcard handler for '' @ ev @ '':'') ev (listeners s ''all'')\<rparr>"
  by (simp add: emit_def Let_def call_listeners_eq group_listeners_def event_data_def
           split: option.splits)

lemma find_group_None: "(find_group gs ev = None) = (ev \<notin> set (concat (map snd gs)))"
  by (induction gs) auto

lemma find_group_Some: "find_group gs ev = Some g \<Longrightarrow> g \<in> fst ` set gs"
  by (induction gs) (auto split: if_splits)

lemma distinct_explicit_events: "distinct explicit_events"
  unfolding explicit_events_def EVENT_GROUPS_def by code_simp

text \<open>When no event name is listed twice, the loop of \<^verbatim>\<open>getEventGroup\<close> finds the one group
  that lists the name.\<close>

lemma find_group_member:
  "distinct (concat (map snd gs)) \<Longrightarrow> (g, evs) \<in> set gs \<Longrightarrow> ev \<in> set evs \<Longrightarrow>
   find_group gs ev = Some g"
proof (induction gs)
  case Nil
  then show ?case by simp
next
  case (Cons ge gs)
  show ?case
  proof (cases "ev \<in> set (snd ge)")
    case True
    have "(g, evs) \<notin> set gs"
    proof
      assume "(g, evs) \<in> set gs"
      then have "ev \<in> \<Union> (set ` snd ` set gs)"
        using Cons.prems(3) by force
      then show False
        using True Cons.prems(1) by auto
    qed
    then have "ge = (g, evs)"
      using Cons.prems(2) by simp
    then show ?thesis
      using True by simp
  next
    case False
    then have "(g, evs) \<in> set gs"
      using Cons.prems(2,3) by auto
    then show ?thesis
      using False Cons by simp
  qed
qed

lemma find_group_explicit:
  "(g, evs) \<in> set EVENT_GROUPS \<Longrightarrow> ev \<in> set evs \<Longrightarrow> find_group EVENT_GROUPS ev = Some g"
  using distinct_explicit_events find_group_member [of EVENT_GROUPS g evs ev]
  by (simp add: explicit_events_def)

lemma config_not_explicit: "''config'' \<notin> fst ` set EVENT_GROUPS"
  by (simp add: EVENT_GROUPS_def)

lemma listeners_bus_demo:
  "listeners bus_demo ''show'' = [Callback 1 (\<lambda>ev. True)]"
  "listeners bus_demo ''lifecycle'' = [Callback 2 (\<lambda>ev. False)]"
  "listeners bus_demo ''*'' = [Callback 3 (\<lambda>ev. False)]"
  "listeners bus_demo ''all'' = [Callback 4 (\<lambda>ev. False)]"
  "listeners bus_demo ''config'' = [Callback 5 (\<lambda>ev. False)]"
  "listeners bus_demo ''autoplayChange'' = []"
  "listeners bus_demo ''autoplay'' = []"
  "listeners bus_demo ''easingChange'' = []"
  "delivered bus_demo = []"
  "console bus_demo = []"
  by (simp_all add: bus_demo_def listeners_def on_def new_pointy_def)




text \<open>
  C10. An event name that a list of \<^verbatim>\<open>EVENT_GROUPS\<close> holds is dispatched to that group,
  which is never \<^verbatim>\<open>'config'\<close>, also when the name ends in \<^verbatim>\<open>Change\<close>: its handlers are those
  of the name, of that group and of the wildcards. \<^verbatim>\<open>getEventGroup\<close> answers \<^verbatim>\<open>'config'\<close>
  exactly for the names that end in \<^verbatim>\<open>Change\<close> and stand in no list.
\<close>

theorem getEventGroup_explicit_first:
  "((g, evs) \<in> set EVENT_GROUPS \<and> ev \<in> set evs \<longrightarrow>
      getEventGroup ev = Some g \<and> g \<noteq> ''config''
      \<and> delivered (emit ev data s) =
          delivered s @ map (\<lambda>h. (cb_id h, event_data ev data))
            (listeners s ev @ listeners s g @ listeners s ''*'' @ listeners s ''all''))
   \<and> ((getEventGroup ev = Some ''config'') = (endsWith ev ''Change'' \<and> ev \<notin> set explicit_events))"
proof (intro conjI impI)
  assume a: "(g, evs) \<in> set EVENT_GROUPS \<and> ev \<in> set evs"
  then have f: "find_group EVENT_GROUPS ev = Some g"
    using find_group_explicit [of g evs ev] by simp
  then show grp: "getEventGroup ev = Some g"
    by (simp add: getEventGroup_def)
  from a config_not_explicit show "g \<noteq> ''config''"
    by force
  from grp show "delivered (emit ev data s) =
      delivered s @ map (\<lambda>h. (cb_id h, event_data ev data))
        (listeners s ev @ listeners s g @ listeners s ''*'' @ listeners s ''all'')"
    by (simp add: emit_eq group_listeners_def)
next
  show "(getEventGroup ev = Some ''config'') = (endsWith ev ''Change'' \<and> ev \<notin> set explicit_events)"
  proof (cases "find_group EVENT_GROUPS ev")
    case None
    then show ?thesis
      using find_group_None [of EVENT_GROUPS ev]
      by (simp add: getEventGroup_def explicit_events_def)
  next
    case (Some g)
    then have "g \<noteq> ''config''"
      using find_group_Some [of EVENT_GROUPS ev g] config_not_explicit by force
    moreover from Some have "ev \<in> set explicit_events"
      using find_group_None [of EVENT_GROUPS ev] by (simp add: explicit_events_def)
    ultimately show ?thesis
      using Some by (simp add: getEventGroup_def)
  qed
qed

text \<open>\<^verbatim>\<open>trackingFpsChange\<close> and \<^verbatim>\<open>autoplayChange\<close> go to their explicit groups,
  \<^verbatim>\<open>easingChange\<close> to \<^verbatim>\<open>'config'\<close>; on \<open>bus_demo\<close> the config handler 5 is called for
  \<^verbatim>\<open>easingChange\<close> and not for \<^verbatim>\<open>autoplayChange\<close>.\<close>

theorem getEventGroup_explicit_first_witness:
  "getEventGroup ''trackingFpsChange'' = Some ''tracking''
   \<and> getEventGroup ''autoplayChange'' = Some ''autoplay''
   \<and> getEventGroup ''easingChange'' = Some ''config''
   \<and> map fst (delivered (emit ''autoplayChange'' [] bus_demo)) = [3, 4]
   \<and> map fst (delivered (emit ''easingChange'' [] bus_demo)) = [5, 3, 4]"
proof -
  have t: "(''tracking'', [''track'', ''targetChange'', ''trackingChange'', ''trackingFpsChange''])
             \<in> set EVENT_GROUPS
           \<and> ''trackingFpsChange''
             \<in> set [''track'', ''targetChange'', ''trackingChange'', ''trackingFpsChange'']"
    by (simp add: EVENT_GROUPS_def)
  have a: "(''autoplay'', [''autoplayStart'', ''autoplayStop'', ''autoplayPause'',
             ''autoplayResume'', ''autoplayNext'', ''autoplayComplete'', ''autoHide'',
             ''autoplayChange'', ''autoplayWaitForMessagesChange'']) \<in> set EVENT_GROUPS
           \<and> ''autoplayChange'' \<in> set [''autoplayStart'', ''autoplayStop'', ''autoplayPause'',
             ''autoplayResume'', ''autoplayNext'', ''autoplayComplete'', ''autoHide'',
             ''autoplayChange'', ''autoplayWaitForMessagesChange'']"
    by (simp add: EVENT_GROUPS_def)
  have e: "endsWith ''easingChange'' ''Change'' \<and> ''easingChange'' \<notin> set explicit_events"
    by (simp add: endsWith_def explicit_events_def EVENT_GROUPS_def)
  from getEventGroup_explicit_first [of "''tracking''" _ "''trackingFpsChange''" "[]" bus_demo] t
  have 1: "getEventGroup ''trackingFpsChange'' = Some ''tracking''"
    by blast
  from getEventGroup_explicit_first [of "''autoplay''" _ "''autoplayChange''" "[]" bus_demo] a
  have 2: "getEventGroup ''autoplayChange'' = Some ''autoplay''"
    and 3: "delivered (emit ''autoplayChange'' [] bus_demo) =
          delivered bus_demo @ map (\<lambda>h. (cb_id h, event_data ''autoplayChange'' []))
            (listeners bus_demo ''autoplayChange'' @ listeners bus_demo ''autoplay''
              @ listeners bus_demo ''*'' @ listeners bus_demo ''all'')"
    by blast+
  from getEventGroup_explicit_first [of _ _ "''easingChange''" "[]" bus_demo] e
  have 4: "getEventGroup ''easingChange'' = Some ''config''"
    by blast
  have 5: "map fst (delivered (emit ''easingChange'' [] bus_demo)) = [5, 3, 4]"
    by (simp add: emit_eq 4 group_listeners_def listeners_bus_demo)
  show ?thesis
    using 1 2 3 4 5 by (simp add: listeners_bus_demo)
qed

subsection \<open>Out-of-range indices\<close>




subsection \<open>Direction inference\<close>



end
